theory Spec2Isabelle
  imports Main "HOL-Library.Word"
begin

section \<open>Errors and status codes\<close>

text \<open>
  The Go code passes \<^verbatim>\<open>error\<close> values around. Three kinds occur in the package:
  the sentinel \<^verbatim>\<open>io.EOF\<close> (compared with \<^verbatim>\<open>==\<close>), gRPC status errors built with
  \<^verbatim>\<open>status.Errorf(code, ...)\<close>, and plain errors (\<^verbatim>\<open>fmt.Errorf\<close>, transport errors).
  A Go \<^verbatim>\<open>error\<close> that may be \<^verbatim>\<open>nil\<close> is an \<open>err option\<close>.
\<close>

datatype code = Internal | Unavailable | Unimplemented | OtherCode nat

datatype err = EOF | Status code string | PlainError string

fun code_name :: "code \<Rightarrow> string" where
  "code_name Internal = ''Internal''"
| "code_name Unavailable = ''Unavailable''"
| "code_name Unimplemented = ''Unimplemented''"
| "code_name (OtherCode n) = ''Code''"

text \<open>The text \<^verbatim>\<open>%v\<close> prints for an error, that is, its \<^verbatim>\<open>Error()\<close> string.\<close>

fun error_text :: "err \<Rightarrow> string" where
  "error_text EOF = ''EOF''"
| "error_text (Status c msg) = ''rpc error: code = '' @ code_name c @ '' desc = '' @ msg"
| "error_text (PlainError msg) = msg"


section \<open>Go byte slices over a heap of backing arrays\<close>

text \<open>
  A Go slice is a header (array, offset, length, capacity) over a backing array that
  other slices may share. The heap is the list of the backing arrays allocated so far;
  the address of an array is its index, so a new array gets the address \<open>length h\<close>.
  The \<^verbatim>\<open>nil\<close> slice has no array.
\<close>

type_synonym byte = "8 word"
type_synonym addr = nat
type_synonym heap = "byte list list"

datatype slice = NilSlice | Slice addr nat nat nat

fun len_s :: "slice \<Rightarrow> nat" where
  "len_s NilSlice = 0"
| "len_s (Slice a off n c) = n"

fun cap_s :: "slice \<Rightarrow> nat" where
  "cap_s NilSlice = 0"
| "cap_s (Slice a off n c) = c"

text \<open>The bytes a slice shows in a heap.\<close>

fun bytes :: "heap \<Rightarrow> slice \<Rightarrow> byte list" where
  "bytes h NilSlice = []"
| "bytes h (Slice a off n c) = take n (drop off (h ! a))"

text \<open>A slice is well formed in a heap when its window lies inside an allocated array.\<close>

fun wf_slice :: "heap \<Rightarrow> slice \<Rightarrow> bool" where
  "wf_slice h NilSlice = True"
| "wf_slice h (Slice a off n c) = (a < length h \<and> n \<le> c \<and> off + c \<le> length (h ! a))"

text \<open>\<^verbatim>\<open>s[:0]\<close>: same array and capacity, length zero; \<^verbatim>\<open>nil[:0]\<close> is \<^verbatim>\<open>nil\<close>.\<close>

fun reslice0 :: "slice \<Rightarrow> slice" where
  "reslice0 NilSlice = NilSlice"
| "reslice0 (Slice a off n c) = Slice a off 0 c"

text \<open>Overwriting the cells \<open>i, i+1, ...\<close> of an array with \<open>xs\<close>.\<close>

definition store_at :: "byte list \<Rightarrow> nat \<Rightarrow> byte list \<Rightarrow> byte list" where
  "store_at arr i xs = take i arr @ xs @ drop (i + length xs) arr"

text \<open>
  \<^verbatim>\<open>append(s, xs...)\<close>. When the capacity suffices the backing array of \<open>s\<close> is
  written in place; otherwise a new array is allocated. The values \<open>xs\<close> are read
  before anything is written (Go moves the bytes as \<^verbatim>\<open>memmove\<close> does, so source and
  destination may overlap). The capacity of a new array is the runtime's choice: it is
  the needed length plus \<open>slack\<close>, a parameter.
\<close>

fun go_append :: "nat \<Rightarrow> heap \<Rightarrow> slice \<Rightarrow> byte list \<Rightarrow> heap \<times> slice" where
  "go_append slack h NilSlice xs =
     (if xs = [] then (h, NilSlice)
      else (h @ [xs @ replicate slack 0], Slice (length h) 0 (length xs) (length xs + slack)))"
| "go_append slack h (Slice a off n c) xs =
     (if n + length xs \<le> c
      then (h[a := store_at (h ! a) (off + n) xs], Slice a off (n + length xs) c)
      else (h @ [take n (drop off (h ! a)) @ xs @ replicate slack 0],
            Slice (length h) 0 (n + length xs) (n + length xs + slack)))"

text \<open>
  \<^verbatim>\<open>s[i] = b\<close>: writes one cell of the backing array; an index outside the length
  panics (\<open>None\<close>).
\<close>

fun slice_set :: "heap \<Rightarrow> slice \<Rightarrow> nat \<Rightarrow> byte \<Rightarrow> heap option" where
  "slice_set h NilSlice i b = None"
| "slice_set h (Slice a off n c) i b =
     (if i < n then Some (h[a := (h ! a)[off + i := b]]) else None)"


section \<open>The raw codec\<close>

text \<open>
  \<^verbatim>\<open>RawProtoFrame\<close> holds one slice. The codec methods take \<^verbatim>\<open>v any\<close> and test
  whether it is a \<^verbatim>\<open>*RawProtoFrame\<close>; the other values are protobuf messages (of a
  type \<open>'m\<close>) and values that are neither (carrying the name \<^verbatim>\<open>%T\<close> prints).
  \<^verbatim>\<open>proto.Marshal\<close> and \<^verbatim>\<open>proto.Unmarshal\<close> belong to the protobuf library and are
  parameters.
\<close>

record RawProtoFrame =
  Payload :: slice

datatype 'm any = Frame RawProtoFrame | ProtoMessage 'm | OtherValue string

record 'm proto_lib =
  proto_Marshal :: "'m \<Rightarrow> err + byte list"
  proto_Unmarshal :: "byte list \<Rightarrow> 'm \<Rightarrow> err + 'm"

definition ProtoCodec_Name :: string where
  "ProtoCodec_Name = ''proto''"

definition ProtoCodec_Marshal :: "'m proto_lib \<Rightarrow> heap \<Rightarrow> 'm any \<Rightarrow> err + heap \<times> slice" where
  "ProtoCodec_Marshal P h v =
     (case v of
        ProtoMessage m \<Rightarrow>
          (case proto_Marshal P m of
             Inl e \<Rightarrow> Inl e
           | Inr bs \<Rightarrow> Inr (h @ [bs], Slice (length h) 0 (length bs) (length bs)))
      | Frame f \<Rightarrow> Inl (PlainError ''expected proto.Message, got *grpc.RawProtoFrame'')
      | OtherValue t \<Rightarrow> Inl (PlainError (''expected proto.Message, got '' @ t)))"

text \<open>
  \<^verbatim>\<open>Unmarshal\<close> returns an error and changes its target in place: the model returns
  the new heap, the new value of the target and the error.
\<close>

definition ProtoCodec_Unmarshal ::
    "'m proto_lib \<Rightarrow> heap \<Rightarrow> slice \<Rightarrow> 'm any \<Rightarrow> heap \<times> 'm any \<times> err option" where
  "ProtoCodec_Unmarshal P h data v =
     (case v of
        ProtoMessage m \<Rightarrow>
          (case proto_Unmarshal P (bytes h data) m of
             Inl e \<Rightarrow> (h, ProtoMessage m, Some e)
           | Inr m' \<Rightarrow> (h, ProtoMessage m', None))
      | Frame f \<Rightarrow> (h, v, Some (PlainError ''expected proto.Message, got *grpc.RawProtoFrame''))
      | OtherValue t \<Rightarrow> (h, v, Some (PlainError (''expected proto.Message, got '' @ t))))"

definition RawProtoCodec_Name :: string where
  "RawProtoCodec_Name = ProtoCodec_Name"

definition RawProtoCodec_Marshal :: "'m proto_lib \<Rightarrow> heap \<Rightarrow> 'm any \<Rightarrow> err + heap \<times> slice" where
  "RawProtoCodec_Marshal P h v =
     (case v of
        Frame f \<Rightarrow> Inr (h, Payload f)
      | _ \<Rightarrow> ProtoCodec_Marshal P h v)"

definition RawProtoCodec_Unmarshal ::
    "'m proto_lib \<Rightarrow> nat \<Rightarrow> heap \<Rightarrow> slice \<Rightarrow> 'm any \<Rightarrow> heap \<times> 'm any \<times> err option" where
  "RawProtoCodec_Unmarshal P slack h data v =
     (case v of
        Frame f \<Rightarrow>
          (if len_s data = 0 then (h, Frame (f\<lparr>Payload := NilSlice\<rparr>), None)
           else (case go_append slack h (reslice0 (Payload f)) (bytes h data) of
                   (h', p) \<Rightarrow> (h', Frame (f\<lparr>Payload := p\<rparr>), None)))
      | _ \<Rightarrow> ProtoCodec_Unmarshal P h data v)"


section \<open>The two forwarding tasks\<close>

text \<open>
  A forwarding task is a goroutine that loops over \<^verbatim>\<open>src.RecvMsg(f)\<close> and
  \<^verbatim>\<open>dst.SendMsg(f)\<close> and sends its first error to a channel of capacity one, then
  stops. The streams belong to gRPC; what they answer is the environment of the task:
  \<^item> the results of the successive \<^verbatim>\<open>src.RecvMsg\<close> calls, in order, each either the
    content the frame \<open>f\<close> holds after the call or an error; when the list is used up
    the next \<^verbatim>\<open>RecvMsg\<close> never returns, and the task never reports (\<open>None\<close>);
  \<^item> the result of \<^verbatim>\<open>dst.SendMsg\<close> in round \<open>k\<close> of the loop;
  \<^item> for the outbound side, the result of \<^verbatim>\<open>src.Header()\<close> and of
    \<^verbatim>\<open>dst.SendHeader(md)\<close>.
  The task yields the calls it made on \<open>dst\<close>, in order, and the error it reported.
\<close>

datatype 'f recv = Received 'f | RecvError err

datatype ('f, 'md) sent = SendHeader 'md | SendMsg 'f

record 'f pipe =
  src_RecvMsg :: "'f recv list"
  dst_SendMsg :: "nat \<Rightarrow> 'f \<Rightarrow> err option"

record ('f, 'md) header_pipe = "'f pipe" +
  src_Header :: "err + 'md"
  dst_SendHeader :: "'md \<Rightarrow> err option"

text \<open>The Go \<^verbatim>\<open>int\<close> counter \<^verbatim>\<open>i\<close> after \<open>k\<close> increments (64-bit, wrapping).\<close>

definition counter :: "nat \<Rightarrow> 64 word" where
  "counter k = of_nat k"

text \<open>The block under \<^verbatim>\<open>if i == 0\<close>: read the outbound header, send it inbound.\<close>

definition propagate_header :: "('f, 'md, 'x) header_pipe_scheme \<Rightarrow> nat \<Rightarrow> ('f, 'md) sent list \<times> err option" where
  "propagate_header E k =
     (if counter k = 0
      then (case src_Header E of
              Inl e \<Rightarrow> ([], Some e)
            | Inr md \<Rightarrow> ([SendHeader md], dst_SendHeader E md))
      else ([], None))"

fun outbound_loop ::
    "('f, 'md, 'x) header_pipe_scheme \<Rightarrow> nat \<Rightarrow> 'f recv list \<Rightarrow> ('f, 'md) sent list \<times> err option" where
  "outbound_loop E k [] = ([], None)"
| "outbound_loop E k (RecvError e # rs) = ([], Some e)"
| "outbound_loop E k (Received f # rs) =
     (case propagate_header E k of
        (hs, Some e) \<Rightarrow> (hs, Some e)
      | (hs, None) \<Rightarrow>
          (case dst_SendMsg E k f of
             Some e \<Rightarrow> (hs @ [SendMsg f], Some e)
           | None \<Rightarrow>
               (case outbound_loop E (Suc k) rs of
                  (tr, r) \<Rightarrow> (hs @ SendMsg f # tr, r))))"

definition ForwardOutboundToInbound ::
    "('f, 'md, 'x) header_pipe_scheme \<Rightarrow> ('f, 'md) sent list \<times> err option" where
  "ForwardOutboundToInbound E = outbound_loop E 0 (src_RecvMsg E)"

fun inbound_loop ::
    "('f, 'x) pipe_scheme \<Rightarrow> nat \<Rightarrow> 'f recv list \<Rightarrow> 'f list \<times> err option" where
  "inbound_loop E k [] = ([], None)"
| "inbound_loop E k (RecvError e # rs) = ([], Some e)"
| "inbound_loop E k (Received f # rs) =
     (case dst_SendMsg E k f of
        Some e \<Rightarrow> ([f], Some e)
      | None \<Rightarrow>
          (case inbound_loop E (Suc k) rs of
             (tr, r) \<Rightarrow> (f # tr, r)))"

definition ForwardInboundToOutbound :: "('f, 'x) pipe_scheme \<Rightarrow> 'f list \<times> err option" where
  "ForwardInboundToOutbound E = inbound_loop E 0 (src_RecvMsg E)"


section \<open>The relay engine\<close>

text \<open>
  \<^verbatim>\<open>Handler.Handler\<close> resolves the method name, asks the director, opens the outbound
  stream, starts the two tasks and then runs two rounds of \<^verbatim>\<open>select\<close> over their
  channels. What a \<^verbatim>\<open>select\<close> receives is decided by the scheduler and the peers, so
  the model takes the sequence of received reports as given: the \<open>n\<close>-th element is what
  the \<open>n\<close>-th \<^verbatim>\<open>select\<close> receives. When the sequence is used up no channel ever
  becomes ready and the \<^verbatim>\<open>select\<close> (which has no default case and no timeout) does not
  return: the outcome is \<open>Blocked\<close>.

  The engine's calls on its collaborators are recorded in order. The deferred
  \<^verbatim>\<open>clientCancel()\<close> runs on every return after the cancellable context exists.
\<close>

type_synonym ('ctx, 'conn) StreamDirector = "'ctx \<Rightarrow> string \<Rightarrow> 'ctx \<times> 'conn option \<times> err option"

record ('ctx, 'conn) Handler =
  director :: "('ctx, 'conn) StreamDirector"

datatype sel = InboundToOutbound err | OutboundToInbound err

datatype outcome = Returned "err option" | Blocked

datatype ('conn, 'md) action =
    DirectorCall string
  | NewClientStreamCall 'conn string
  | CloseSendCall
  | CancelCall
  | SetTrailerCall 'md

record 'md ClientStream =
  CloseSend :: "err option"
  Trailer :: 'md

record ('ctx, 'conn, 'md) ServerStream =
  MethodFromServerStream :: "string option"
  Context :: 'ctx
  NewClientStream :: "'ctx \<Rightarrow> 'conn \<Rightarrow> string \<Rightarrow> err + 'md ClientStream"
  selected :: "sel list"

text \<open>The loop \<^verbatim>\<open>for i := 0; i < 2; i++ { select ... }\<close>, with \<open>n\<close> rounds left.\<close>

fun reconcile :: "'md ClientStream \<Rightarrow> nat \<Rightarrow> sel list \<Rightarrow> ('conn, 'md) action list \<times> outcome" where
  "reconcile cs 0 sched =
     ([], Returned (Some (Status Internal ''gRPC proxying should never reach this stage.'')))"
| "reconcile cs (Suc n) [] = ([], Blocked)"
| "reconcile cs (Suc n) (InboundToOutbound e # sched) =
     (if e = EOF
      then (case CloseSend cs of
              Some cCloseErr \<Rightarrow> ([CloseSendCall], Returned (Some cCloseErr))
            | None \<Rightarrow>
                (case reconcile cs n sched of
                   (tr, r) \<Rightarrow> (CloseSendCall # tr, r)))
      else ([CancelCall],
            Returned (Some (Status Internal
              (''failed proxying inbound to outbound: '' @ error_text e)))))"
| "reconcile cs (Suc n) (OutboundToInbound e # sched) =
     ([SetTrailerCall (Trailer cs)], Returned (if e \<noteq> EOF then Some e else None))"

text \<open>What the deferred \<^verbatim>\<open>clientCancel()\<close> adds when the function returns.\<close>

fun deferred :: "outcome \<Rightarrow> ('conn, 'md) action list" where
  "deferred (Returned r) = [CancelCall]"
| "deferred Blocked = []"

definition Handler_Handler ::
    "('ctx, 'conn) Handler \<Rightarrow> ('ctx, 'conn, 'md) ServerStream \<Rightarrow> ('conn, 'md) action list \<times> outcome" where
  "Handler_Handler h serverStream =
     (case MethodFromServerStream serverStream of
        None \<Rightarrow>
          ([], Returned (Some (Status Internal ''lowLevelServerStream does not exist in context'')))
      | Some fullMethodName \<Rightarrow>
          (case director h (Context serverStream) fullMethodName of
             (outgoingCtx, targetConn, Some e) \<Rightarrow>
               ([DirectorCall fullMethodName], Returned (Some e))
           | (outgoingCtx, None, None) \<Rightarrow>
               ([DirectorCall fullMethodName],
                Returned (Some (Status Unavailable ''target connection is nil'')))
           | (outgoingCtx, Some conn, None) \<Rightarrow>
               (case NewClientStream serverStream outgoingCtx conn fullMethodName of
                  Inl e \<Rightarrow>
                    ([DirectorCall fullMethodName, NewClientStreamCall conn fullMethodName, CancelCall],
                     Returned (Some e))
                | Inr clientStream \<Rightarrow>
                    (case reconcile clientStream 2 (selected serverStream) of
                       (tr, r) \<Rightarrow>
                         ([DirectorCall fullMethodName, NewClientStreamCall conn fullMethodName]
                            @ tr @ deferred r, r)))))"

definition TransparentHandler :: "('ctx, 'conn) StreamDirector \<Rightarrow> ('ctx, 'conn) Handler" where
  "TransparentHandler d = \<lparr>director = d\<rparr>"


section \<open>The default director\<close>

text \<open>
  \<^verbatim>\<open>metadata.MD\<close> is a Go map, a reference: two holders of one \<^verbatim>\<open>MD\<close> see each
  other's writes. The metadata objects live in a store (their address is their index)
  and a context holds the addresses of its incoming and of its outgoing metadata, if
  any. A director reads a context in a store and may allocate, so the \<open>'ctx\<close> of a
  \<open>StreamDirector\<close> is here a store paired with a context.

  The three functions of the gRPC library are modelled by what their documentation
  says: \<^verbatim>\<open>FromIncomingContext\<close> yields the incoming metadata of the context, or
  \<^verbatim>\<open>nil\<close>; \<^verbatim>\<open>md.Copy()\<close> allocates a new \<^verbatim>\<open>MD\<close> with the same entries (an empty one
  for \<^verbatim>\<open>nil\<close>); \<^verbatim>\<open>NewOutgoingContext\<close> derives a context whose outgoing metadata is
  the given \<^verbatim>\<open>MD\<close>.
\<close>

type_synonym MD = "string \<rightharpoonup> string list"
type_synonym md_store = "MD list"

record go_context =
  incoming :: "nat option"
  outgoing :: "nat option"

definition FromIncomingContext :: "'x go_context_scheme \<Rightarrow> nat option" where
  "FromIncomingContext ctx = incoming ctx"

definition MD_Copy :: "md_store \<Rightarrow> nat option \<Rightarrow> md_store \<times> nat" where
  "MD_Copy st md =
     (st @ [case md of None \<Rightarrow> Map.empty | Some a \<Rightarrow> st ! a], length st)"

definition NewOutgoingContext :: "'x go_context_scheme \<Rightarrow> nat \<Rightarrow> 'x go_context_scheme" where
  "NewOutgoingContext ctx md = ctx\<lparr>outgoing := Some md\<rparr>"

definition DefaultDirector :: "'conn \<Rightarrow> (md_store \<times> 'x go_context_scheme, 'conn) StreamDirector" where
  "DefaultDirector cc = (\<lambda>(st, ctx) fullMethodName.
     (let md = FromIncomingContext ctx;
          (st', copy) = MD_Copy st md;
          outgoingCtx = NewOutgoingContext ctx copy
      in ((st', outgoingCtx), Some cc, None)))"

text \<open>The metadata a context shows in a store.\<close>

definition incoming_metadata :: "md_store \<Rightarrow> 'x go_context_scheme \<Rightarrow> MD option" where
  "incoming_metadata st ctx = map_option (\<lambda>a. st ! a) (incoming ctx)"

definition outgoing_metadata :: "md_store \<Rightarrow> 'x go_context_scheme \<Rightarrow> MD option" where
  "outgoing_metadata st ctx = map_option (\<lambda>a. st ! a) (outgoing ctx)"

definition wf_context :: "md_store \<Rightarrow> 'x go_context_scheme \<Rightarrow> bool" where
  "wf_context st ctx =
     ((case incoming ctx of None \<Rightarrow> True | Some a \<Rightarrow> a < length st) \<and>
      (case outgoing ctx of None \<Rightarrow> True | Some a \<Rightarrow> a < length st))"


section \<open>The registrar\<close>

text \<open>
  \<^verbatim>\<open>RegisterService\<close> builds a \<^verbatim>\<open>grpc.ServiceDesc\<close> and hands it to the server. A
  stream handler is the method value \<^verbatim>\<open>streamer.Handler\<close>; it is identified by its
  receiver, the \<open>Handler\<close> record. The field \<^verbatim>\<open>HandlerType\<close> is the empty
  interface, which every implementation satisfies, and is left out.

  The server belongs to gRPC. Of a server the model keeps the registered services, the
  handler for unknown services (the option \<^verbatim>\<open>grpc.UnknownServiceHandler\<close>) and whether
  a server codec was forced. Its \<^verbatim>\<open>RegisterService\<close> refuses a service name that is
  registered already (the library ends the process; \<open>None\<close>). A call of
  \<^verbatim>\<open>/service/method\<close> is routed as the library documents it: to the stream of that
  name of the registered service if there is one (of two streams of one name the later
  one); otherwise to the unknown-service handler if one was installed; otherwise it is
  answered with the status \<^verbatim>\<open>Unimplemented\<close>.
\<close>

record 'h StreamDesc =
  StreamName :: string
  StreamHandler :: 'h
  ServerStreams :: bool
  ClientStreams :: bool

record 'h ServiceDesc =
  ServiceName :: string
  Streams :: "'h StreamDesc list"

record 'h Server =
  services :: "string \<rightharpoonup> 'h ServiceDesc"
  unknownStreamDesc :: "'h option"
  forcedRawCodec :: bool

datatype 'h ServerOption = ForceServerCodec_RawProtoCodec | UnknownServiceHandler 'h

fun apply_ServerOption :: "'h Server \<Rightarrow> 'h ServerOption \<Rightarrow> 'h Server" where
  "apply_ServerOption s ForceServerCodec_RawProtoCodec = s\<lparr>forcedRawCodec := True\<rparr>"
| "apply_ServerOption s (UnknownServiceHandler h) = s\<lparr>unknownStreamDesc := Some h\<rparr>"

definition grpc_NewServer :: "'h ServerOption list \<Rightarrow> 'h Server" where
  "grpc_NewServer opts =
     foldl apply_ServerOption \<lparr>services = Map.empty, unknownStreamDesc = None, forcedRawCodec = False\<rparr> opts"

definition Server_RegisterService :: "'h Server \<Rightarrow> 'h ServiceDesc \<Rightarrow> 'h Server option" where
  "Server_RegisterService s sd =
     (case services s (ServiceName sd) of
        Some old \<Rightarrow> None
      | None \<Rightarrow> Some (s\<lparr>services := (services s)(ServiceName sd \<mapsto> sd)\<rparr>))"

datatype 'h routed = Invoke 'h | UnimplementedStatus

definition handleStream :: "'h Server \<Rightarrow> string \<Rightarrow> string \<Rightarrow> 'h routed" where
  "handleStream s service method =
     (case (case services s service of
              None \<Rightarrow> None
            | Some sd \<Rightarrow> find (\<lambda>d. StreamName d = method) (rev (Streams sd))) of
        Some d \<Rightarrow> Invoke (StreamHandler d)
      | None \<Rightarrow>
          (case unknownStreamDesc s of
             Some h \<Rightarrow> Invoke h
           | None \<Rightarrow> UnimplementedStatus))"

text \<open>The loop of \<^verbatim>\<open>RegisterService\<close> over \<^verbatim>\<open>methodNames\<close>.\<close>

fun add_streams :: "'s \<Rightarrow> 's ServiceDesc \<Rightarrow> string list \<Rightarrow> 's ServiceDesc" where
  "add_streams streamer fakeDesc [] = fakeDesc"
| "add_streams streamer fakeDesc (m # ms) =
     (let streamDesc = \<lparr>StreamName = m, StreamHandler = streamer,
                        ServerStreams = True, ClientStreams = True\<rparr>
      in add_streams streamer (fakeDesc\<lparr>Streams := Streams fakeDesc @ [streamDesc]\<rparr>) ms)"

definition fakeDesc ::
    "('ctx, 'conn) StreamDirector \<Rightarrow> string \<Rightarrow> string list \<Rightarrow> ('ctx, 'conn) Handler ServiceDesc" where
  "fakeDesc d serviceName methodNames =
     add_streams \<lparr>director = d\<rparr> \<lparr>ServiceName = serviceName, Streams = []\<rparr> methodNames"

definition RegisterService ::
    "('ctx, 'conn) Handler Server \<Rightarrow> ('ctx, 'conn) StreamDirector \<Rightarrow> string \<Rightarrow> string list
       \<Rightarrow> ('ctx, 'conn) Handler Server option" where
  "RegisterService server d serviceName methodNames =
     Server_RegisterService server (fakeDesc d serviceName methodNames)"

definition DefaultProxyServerOpt :: "'h ServerOption" where
  "DefaultProxyServerOpt = ForceServerCodec_RawProtoCodec"

definition DefaultProxyOpt :: "'conn \<Rightarrow> (md_store \<times> 'x go_context_scheme, 'conn) Handler ServerOption" where
  "DefaultProxyOpt cc = UnknownServiceHandler (TransparentHandler (DefaultDirector cc))"

definition NewProxy ::
    "'conn \<Rightarrow> (md_store \<times> 'x go_context_scheme, 'conn) Handler ServerOption list
       \<Rightarrow> (md_store \<times> 'x go_context_scheme, 'conn) Handler Server" where
  "NewProxy dst opts = grpc_NewServer ([DefaultProxyServerOpt, DefaultProxyOpt dst] @ opts)"

text \<open>
  Restricted mode: the server has no handler for unknown services, as the server
  \<^verbatim>\<open>grpc.NewServer(DefaultProxyServerOpt())\<close> of the package's test. (\<open>NewProxy\<close> makes
  a server in transparent mode.)
\<close>

definition restricted_mode :: "'h Server \<Rightarrow> bool" where
  "restricted_mode s = (unknownStreamDesc s = None)"


section \<open>Auxiliary notions and example values\<close>

text \<open>
  The cells of \<open>s\<close> lie outside the capacity window of \<open>t\<close>: the two slices are
  over different arrays, or their windows in the one array do not meet. A \<^verbatim>\<open>nil\<close>
  slice has no cells.
\<close>

fun apart :: "slice \<Rightarrow> slice \<Rightarrow> bool" where
  "apart (Slice a off n c) (Slice a' off' n' c') = (a \<noteq> a' \<or> off + n \<le> off' \<or> off' + c' \<le> off)"
| "apart s t = True"

text \<open>
  The calls by which a round of the reconciliation loop ends the call from the outbound
  branch (\<open>SetTrailerCall\<close>) or from the error path of the inbound branch
  (\<open>CancelCall\<close>).
\<close>

fun ends_loop :: "('conn, 'md) action \<Rightarrow> bool" where
  "ends_loop (SetTrailerCall md) = True"
| "ends_loop CancelCall = True"
| "ends_loop a = False"

text \<open>Registering a service on a server and then routing one call of that service.\<close>

definition registered_call ::
    "('ctx, 'conn) Handler Server \<Rightarrow> ('ctx, 'conn) StreamDirector \<Rightarrow> string \<Rightarrow> string list \<Rightarrow> string
       \<Rightarrow> ('ctx, 'conn) Handler routed option" where
  "registered_call server d serviceName methodNames method =
     (case RegisterService server d serviceName methodNames of
        None \<Rightarrow> None
      | Some server' \<Rightarrow> Some (handleStream server' serviceName method))"

text \<open>Values for the concrete runs below, after the package's test.\<close>

definition no_proto :: "unit proto_lib" where
  "no_proto = \<lparr>proto_Marshal = (\<lambda>m. Inr []), proto_Unmarshal = (\<lambda>bs m. Inr m)\<rparr>"

definition demo_handler :: "(unit, nat) Handler" where
  "demo_handler = \<lparr>director = (\<lambda>ctx name. (ctx, Some 7, None))\<rparr>"

definition demo_failing_handler :: "(unit, nat) Handler" where
  "demo_failing_handler =
     \<lparr>director = (\<lambda>ctx name. (ctx, None, Some (Status Unimplemented ''unknown method'')))\<rparr>"

definition demo_nil_handler :: "(unit, nat) Handler" where
  "demo_nil_handler = \<lparr>director = (\<lambda>ctx name. (ctx, None, None))\<rparr>"

definition demo_stream :: "err option \<Rightarrow> sel list \<Rightarrow> (unit, nat, string) ServerStream" where
  "demo_stream closeErr sched =
     \<lparr>MethodFromServerStream = Some ''/acme.demo.v1.DemoService/Echo'',
      Context = (),
      NewClientStream = (\<lambda>ctx conn name. Inr \<lparr>CloseSend = closeErr, Trailer = ''x-target-trailer''\<rparr>),
      selected = sched\<rparr>"

definition demo_pipe :: "err + string \<Rightarrow> err option \<Rightarrow> (string, string) header_pipe" where
  "demo_pipe hdr sendHdr =
     \<lparr>src_RecvMsg = [Received ''ping::ok'', RecvError EOF],
      dst_SendMsg = (\<lambda>k f. None),
      src_Header = hdr,
      dst_SendHeader = (\<lambda>md. sendHdr)\<rparr>"

definition demo_store :: md_store where
  "demo_store = [[''x-test'' \<mapsto> [''1'']]]"

definition demo_context :: go_context where
  "demo_context = \<lparr>incoming = Some 0, outgoing = None\<rparr>"

definition demo_director :: "(md_store \<times> go_context, nat) StreamDirector" where
  "demo_director = (\<lambda>ctx name. (ctx, Some 9, None))"

definition demo_proxy_stream :: "(md_store \<times> go_context, nat, string) ServerStream" where
  "demo_proxy_stream =
     \<lparr>MethodFromServerStream = Some ''/acme.demo.v1.DemoService/Nope'',
      Context = (demo_store, demo_context),
      NewClientStream = (\<lambda>ctx conn name. Inr \<lparr>CloseSend = None, Trailer = ''x-target-trailer''\<rparr>),
      selected = [OutboundToInbound EOF]\<rparr>"


section \<open>Facts about slices\<close>

lemma bytes_store_at:
  "off + length xs \<le> length arr \<Longrightarrow> take (length xs) (drop off (store_at arr off xs)) = xs"
  by (simp add: store_at_def)

lemma go_append_reslice0_bytes:
  assumes "wf_slice h s" and "go_append slack h (reslice0 s) xs = (h', p)"
  shows "bytes h' p = xs"
proof (cases s)
  case NilSlice
  with assms show ?thesis by (auto split: if_splits)
next
  case (Slice a off n c)
  show ?thesis
  proof (cases "length xs \<le> c")
    case True
    with assms Slice have h': "h' = h[a := store_at (h ! a) off xs]" and p: "p = Slice a off (length xs) c"
      by auto
    from assms Slice True have "off + length xs \<le> length (h ! a)" and "a < length h" by auto
    then show ?thesis using h' p by (simp add: bytes_store_at)
  next
    case False
    with assms Slice show ?thesis by auto
  qed
qed

text \<open>A write outside a window does not change what the window shows.\<close>

lemma window_update_outside:
  "k < off \<or> off + n \<le> k \<Longrightarrow> take n (drop off (xs[k := b])) = take n (drop off xs)"
  by (auto simp: drop_update_swap)

lemma bytes_slice_set_apart:
  assumes "slice_set h (Slice a off n c) i b = Some h2"
    and "a \<noteq> a' \<or> off + n \<le> off' \<or> off' + m \<le> off"
  shows "bytes h2 (Slice a' off' m c') = bytes h (Slice a' off' m c')"
proof -
  from assms(1) have i: "i < n" and h2: "h2 = h[a := (h ! a)[off + i := b]]"
    by (auto split: if_splits)
  show ?thesis
  proof (cases "a = a'")
    case False
    then show ?thesis using h2 by simp
  next
    case True
    with assms(2) i have "off + i < off' \<or> off' + m \<le> off + i" by auto
    then have "take m (drop off' ((h ! a)[off + i := b])) = take m (drop off' (h ! a))"
      by (rule window_update_outside)
    then show ?thesis using h2 True by (cases "a < length h") (auto simp: list_update_beyond)
  qed
qed


section \<open>The raw codec on frames\<close>

text \<open>
  What \<open>RawProtoCodec_Unmarshal\<close> does to a frame: no error, the payload shows the
  bytes of the input, it is \<^verbatim>\<open>nil\<close> for an empty input, and otherwise it is what
  \<^verbatim>\<open>append(f.Payload[:0], data...)\<close> returns.
\<close>

lemma Unmarshal_Frame:
  assumes "wf_slice h data" and "wf_slice h (Payload f)"
  shows "\<exists>h' p. RawProtoCodec_Unmarshal P slack h data (Frame f) = (h', Frame (f\<lparr>Payload := p\<rparr>), None) \<and>
           bytes h' p = bytes h data \<and>
           (if len_s data = 0 then h' = h \<and> p = NilSlice
            else go_append slack h (reslice0 (Payload f)) (bytes h data) = (h', p))"
proof (cases "len_s data = 0")
  case True
  with assms(1) have "bytes h data = []" by (cases data) auto
  with True show ?thesis by (simp add: RawProtoCodec_Unmarshal_def)
next
  case False
  obtain h' p where ap: "go_append slack h (reslice0 (Payload f)) (bytes h data) = (h', p)"
    by (cases "go_append slack h (reslice0 (Payload f)) (bytes h data)")
  from go_append_reslice0_bytes [OF assms(2) ap] have "bytes h' p = bytes h data" .
  with False ap show ?thesis by (simp add: RawProtoCodec_Unmarshal_def)
qed

text \<open>
  Claim C5. For every frame \<open>f\<close>, marshalling \<open>f\<close> with the raw codec and unmarshalling
  the result into a frame \<open>g\<close> (any frame: a new one, one used before, or \<open>f\<close> itself)
  gives no error and leaves in \<open>g\<close> a payload that shows the bytes of the payload of
  \<open>f\<close>. \<open>Marshal\<close> hands out the payload slice of \<open>f\<close> itself, without a copy and
  without touching the heap.
\<close>

theorem Marshal_Unmarshal_roundtrip:
  assumes "wf_slice h (Payload f)" and "wf_slice h (Payload g)"
  shows "\<exists>data h' g'. RawProtoCodec_Marshal P h (Frame f) = Inr (h, data) \<and>
           RawProtoCodec_Unmarshal P slack h data (Frame g) = (h', Frame g', None) \<and>
           bytes h' (Payload g') = bytes h (Payload f)"
proof -
  have m: "RawProtoCodec_Marshal P h (Frame f) = Inr (h, Payload f)"
    by (simp add: RawProtoCodec_Marshal_def)
  from Unmarshal_Frame [OF assms(1) assms(2), of P slack]
  obtain h' p where "RawProtoCodec_Unmarshal P slack h (Payload f) (Frame g) = (h', Frame (g\<lparr>Payload := p\<rparr>), None)"
    and "bytes h' p = bytes h (Payload f)" by blast
  then have "RawProtoCodec_Unmarshal P slack h (Payload f) (Frame g) = (h', Frame (g\<lparr>Payload := p\<rparr>), None) \<and>
    bytes h' (Payload (g\<lparr>Payload := p\<rparr>)) = bytes h (Payload f)" by simp
  with m show ?thesis by blast
qed

theorem Marshal_Unmarshal_roundtrip_witness:
  "wf_slice [[112, 105, 110, 103], [1, 2, 3, 4, 5, 6]] (Payload \<lparr>Payload = Slice 0 0 4 4\<rparr>) \<and>
   wf_slice [[112, 105, 110, 103], [1, 2, 3, 4, 5, 6]] (Payload \<lparr>Payload = Slice 1 0 6 6\<rparr>) \<and>
   (\<exists>data h' g'.
      RawProtoCodec_Marshal no_proto [[112, 105, 110, 103], [1, 2, 3, 4, 5, 6]] (Frame \<lparr>Payload = Slice 0 0 4 4\<rparr>)
        = Inr ([[112, 105, 110, 103], [1, 2, 3, 4, 5, 6]], data) \<and>
      RawProtoCodec_Unmarshal no_proto 0 [[112, 105, 110, 103], [1, 2, 3, 4, 5, 6]] data
          (Frame \<lparr>Payload = Slice 1 0 6 6\<rparr>) = (h', Frame g', None) \<and>
      bytes h' (Payload g') = [112, 105, 110, 103])"
  using Marshal_Unmarshal_roundtrip
    [of "[[112, 105, 110, 103], [1, 2, 3, 4, 5, 6]]" "\<lparr>Payload = Slice 0 0 4 4\<rparr>"
        "\<lparr>Payload = Slice 1 0 6 6\<rparr>" no_proto 0]
  by simp

text \<open>
  Claim C6. For every frame and every input slice, \<open>RawProtoCodec_Unmarshal\<close> leaves in
  the frame a payload that shows exactly the bytes of the input, whatever the payload
  was before (also when the input overlaps the old payload in one array); and for an
  input of length zero (\<^verbatim>\<open>nil\<close> or empty) the payload is \<^verbatim>\<open>nil\<close>.
\<close>

theorem Unmarshal_overwrites_payload:
  assumes "wf_slice h data" and "wf_slice h (Payload f)"
  shows "\<exists>h' f'. RawProtoCodec_Unmarshal P slack h data (Frame f) = (h', Frame f', None) \<and>
           bytes h' (Payload f') = bytes h data \<and>
           (len_s data = 0 \<longrightarrow> Payload f' = NilSlice)"
proof -
  from Unmarshal_Frame [OF assms, of P slack]
  obtain h' p where u: "RawProtoCodec_Unmarshal P slack h data (Frame f) = (h', Frame (f\<lparr>Payload := p\<rparr>), None)"
    and b: "bytes h' p = bytes h data"
    and n: "if len_s data = 0 then h' = h \<and> p = NilSlice
            else go_append slack h (reslice0 (Payload f)) (bytes h data) = (h', p)"
    by blast
  from n have "len_s data = 0 \<longrightarrow> p = NilSlice" by (simp split: if_splits)
  with u b have "RawProtoCodec_Unmarshal P slack h data (Frame f) = (h', Frame (f\<lparr>Payload := p\<rparr>), None) \<and>
      bytes h' (Payload (f\<lparr>Payload := p\<rparr>)) = bytes h data \<and>
      (len_s data = 0 \<longrightarrow> Payload (f\<lparr>Payload := p\<rparr>) = NilSlice)" by simp
  then show ?thesis by (intro exI [of _ h'] exI [of _ "f\<lparr>Payload := p\<rparr>"])
qed

theorem Unmarshal_overwrites_payload_witness:
  "wf_slice [[1, 2, 3, 4]] (Slice 0 1 2 3) \<and>
   wf_slice [[1, 2, 3, 4]] (Payload \<lparr>Payload = Slice 0 0 4 4\<rparr>) \<and>
   wf_slice [[1, 2, 3, 4]] NilSlice \<and>
   (\<exists>h' f'. RawProtoCodec_Unmarshal no_proto 0 [[1, 2, 3, 4]] (Slice 0 1 2 3) (Frame \<lparr>Payload = Slice 0 0 4 4\<rparr>)
        = (h', Frame f', None) \<and>
      bytes h' (Payload f') = [2, 3]) \<and>
   (\<exists>h' f'. RawProtoCodec_Unmarshal no_proto 0 [[1, 2, 3, 4]] NilSlice (Frame \<lparr>Payload = Slice 0 0 4 4\<rparr>)
        = (h', Frame f', None) \<and>
      bytes h' (Payload f') = [] \<and> Payload f' = NilSlice)"
  using Unmarshal_overwrites_payload
          [of "[[1, 2, 3, 4]]" "Slice 0 1 2 3" "\<lparr>Payload = Slice 0 0 4 4\<rparr>" no_proto 0]
        Unmarshal_overwrites_payload
          [of "[[1, 2, 3, 4]]" NilSlice "\<lparr>Payload = Slice 0 0 4 4\<rparr>" no_proto 0]
  by simp

text \<open>
  Claim C10, as stated, fails: the payload is not always independent of the input.
  \<open>Unmarshal\<close> reuses the backing array of the old payload when its capacity suffices,
  so an input that is a slice of that array (what \<open>Marshal\<close> of the same frame hands
  out) stays shared with the new payload. Here the frame holds the bytes 1, 2, 3; its
  own payload is unmarshalled into it; then \<^verbatim>\<open>data[0] = 9\<close> changes the payload.
\<close>

theorem Unmarshal_shares_reused_array_counterexample:
  "RawProtoCodec_Marshal no_proto [[1, 2, 3]] (Frame \<lparr>Payload = Slice 0 0 3 3\<rparr>)
     = Inr ([[1, 2, 3]], Slice 0 0 3 3) \<and>
   RawProtoCodec_Unmarshal no_proto 0 [[1, 2, 3]] (Slice 0 0 3 3) (Frame \<lparr>Payload = Slice 0 0 3 3\<rparr>)
     = ([[1, 2, 3]], Frame \<lparr>Payload = Slice 0 0 3 3\<rparr>, None) \<and>
   slice_set [[1, 2, 3]] (Slice 0 0 3 3) 0 9 = Some [[9, 2, 3]] \<and>
   bytes [[1, 2, 3]] (Payload \<lparr>Payload = Slice 0 0 3 3\<rparr>) = [1, 2, 3] \<and>
   bytes [[9, 2, 3]] (Payload \<lparr>Payload = Slice 0 0 3 3\<rparr>) = [9, 2, 3] \<and>
   bytes [[9, 2, 3]] (Payload \<lparr>Payload = Slice 0 0 3 3\<rparr>) \<noteq> bytes [[1, 2, 3]] (Payload \<lparr>Payload = Slice 0 0 3 3\<rparr>)"
  by (simp add: RawProtoCodec_Marshal_def RawProtoCodec_Unmarshal_def store_at_def no_proto_def)

text \<open>
  Claim C10, amended. For every frame and every input slice (also \<^verbatim>\<open>nil\<close> and empty)
  \<open>RawProtoCodec_Unmarshal\<close> returns no error and the payload shows the bytes of the
  input; and when the cells of the input lie outside the capacity window of the frame's
  old payload, the new payload is independent of the input: no write \<^verbatim>\<open>data[i] = b\<close>
  after the call changes what the payload shows.
\<close>

theorem Unmarshal_copy_independent:
  assumes "wf_slice h data" and "wf_slice h (Payload f)" and "apart data (Payload f)"
  shows "\<exists>h' f'. RawProtoCodec_Unmarshal P slack h data (Frame f) = (h', Frame f', None) \<and>
           bytes h' (Payload f') = bytes h data \<and>
           (\<forall>i b h''. slice_set h' data i b = Some h'' \<longrightarrow>
              bytes h'' (Payload f') = bytes h' (Payload f'))"
proof -
  from Unmarshal_Frame [OF assms(1,2), of P slack]
  obtain h' p where u: "RawProtoCodec_Unmarshal P slack h data (Frame f) = (h', Frame (f\<lparr>Payload := p\<rparr>), None)"
    and same: "bytes h' p = bytes h data"
    and how: "if len_s data = 0 then h' = h \<and> p = NilSlice
            else go_append slack h (reslice0 (Payload f)) (bytes h data) = (h', p)"
    by blast
  have indep: "bytes h2 p = bytes h' p" if w: "slice_set h' data i b = Some h2" for i b h2
  proof (cases "len_s data = 0")
    case True
    with how show ?thesis by simp
  next
    case False
    then obtain a off n c where data: "data = Slice a off n c" and n: "0 < n"
      by (cases data) auto
    from assms(1) data have a: "a < length h" and len: "length (bytes h data) = n"
      by auto
    from False how have ap: "go_append slack h (reslice0 (Payload f)) (bytes h data) = (h', p)"
      by simp
    show ?thesis
    proof (cases "Payload f")
      case NilSlice
      with ap len n have p: "p = Slice (length h) 0 n (n + slack)"
        by (auto split: if_splits)
      from a have "a \<noteq> length h" by simp
      with w data p show ?thesis
        using bytes_slice_set_apart [of h' a off n c i b h2 "length h" 0 n "n + slack"] by simp
    next
      case (Slice a' off' n' c')
      show ?thesis
      proof (cases "n \<le> c'")
        case True
        with ap Slice len have p: "p = Slice a' off' n c'" by auto
        from assms(3) data Slice True have "a \<noteq> a' \<or> off + n \<le> off' \<or> off' + n \<le> off"
          by auto
        with w data p show ?thesis
          using bytes_slice_set_apart [of h' a off n c i b h2 a' off' n c'] by simp
      next
        case False
        with ap Slice len have p: "p = Slice (length h) 0 n (n + slack)" by auto
        from a have "a \<noteq> length h" by simp
        with w data p show ?thesis
          using bytes_slice_set_apart [of h' a off n c i b h2 "length h" 0 n "n + slack"] by simp
      qed
    qed
  qed
  from u same indep
  have "RawProtoCodec_Unmarshal P slack h data (Frame f) = (h', Frame (f\<lparr>Payload := p\<rparr>), None) \<and>
      bytes h' (Payload (f\<lparr>Payload := p\<rparr>)) = bytes h data \<and>
      (\<forall>i b h''. slice_set h' data i b = Some h'' \<longrightarrow>
         bytes h'' (Payload (f\<lparr>Payload := p\<rparr>)) = bytes h' (Payload (f\<lparr>Payload := p\<rparr>)))"
    by simp
  then show ?thesis by (intro exI [of _ h'] exI [of _ "f\<lparr>Payload := p\<rparr>"])
qed

theorem Unmarshal_copy_independent_witness:
  "wf_slice [[1, 2, 3, 4, 5], [7, 8]] (Slice 1 0 2 2) \<and>
   wf_slice [[1, 2, 3, 4, 5], [7, 8]] (Payload \<lparr>Payload = Slice 0 0 5 5\<rparr>) \<and>
   apart (Slice 1 0 2 2) (Payload \<lparr>Payload = Slice 0 0 5 5\<rparr>) \<and>
   (\<exists>h' f'. RawProtoCodec_Unmarshal no_proto 0 [[1, 2, 3, 4, 5], [7, 8]] (Slice 1 0 2 2)
          (Frame \<lparr>Payload = Slice 0 0 5 5\<rparr>) = (h', Frame f', None) \<and>
      bytes h' (Payload f') = [7, 8] \<and>
      (\<forall>i b h''. slice_set h' (Slice 1 0 2 2) i b = Some h'' \<longrightarrow>
         bytes h'' (Payload f') = bytes h' (Payload f')))"
  using Unmarshal_copy_independent
    [of "[[1, 2, 3, 4, 5], [7, 8]]" "Slice 1 0 2 2" "\<lparr>Payload = Slice 0 0 5 5\<rparr>" no_proto 0]
  by simp



section \<open>The relay engine: call setup\<close>

text \<open>
  Claim C4. After the method name is resolved: if the director returns an error, the
  handler returns that very error and its only call is the one on the director; if the
  director returns no error and a nil connection, the handler returns a status error
  with the code \<open>Unavailable\<close>, again after the call on the director only. In neither
  case a client stream is opened.
\<close>

theorem director_failure_opens_no_stream:
  assumes "MethodFromServerStream ss = Some name"
  shows "(director h (Context ss) name = (octx, conn, Some e) \<longrightarrow>
            Handler_Handler h ss = ([DirectorCall name], Returned (Some e))) \<and>
         (director h (Context ss) name = (octx, None, None) \<longrightarrow>
            Handler_Handler h ss =
              ([DirectorCall name], Returned (Some (Status Unavailable ''target connection is nil''))))"
  using assms by (simp add: Handler_Handler_def split: option.splits)

theorem director_failure_opens_no_stream_witness:
  "MethodFromServerStream (demo_stream None []) = Some ''/acme.demo.v1.DemoService/Echo'' \<and>
   director demo_failing_handler (Context (demo_stream None [])) ''/acme.demo.v1.DemoService/Echo''
     = ((), None, Some (Status Unimplemented ''unknown method'')) \<and>
   Handler_Handler demo_failing_handler (demo_stream None []) =
     ([DirectorCall ''/acme.demo.v1.DemoService/Echo''],
      Returned (Some (Status Unimplemented ''unknown method''))) \<and>
   director demo_nil_handler (Context (demo_stream None [])) ''/acme.demo.v1.DemoService/Echo''
     = ((), None, None) \<and>
   Handler_Handler demo_nil_handler (demo_stream None []) =
     ([DirectorCall ''/acme.demo.v1.DemoService/Echo''],
      Returned (Some (Status Unavailable ''target connection is nil'')))"
  using director_failure_opens_no_stream
          [where ss = "demo_stream None []" and name = "''/acme.demo.v1.DemoService/Echo''"
             and h = demo_failing_handler and octx = "()" and conn = None
             and e = "Status Unimplemented ''unknown method''"]
        director_failure_opens_no_stream
          [where ss = "demo_stream None []" and name = "''/acme.demo.v1.DemoService/Echo''"
             and h = demo_nil_handler and octx = "()" and conn = None and e = EOF]
  by (simp add: demo_stream_def demo_failing_handler_def demo_nil_handler_def)


section \<open>The relay engine: reconciliation\<close>

text \<open>
  Claim C1. When the first \<^verbatim>\<open>select\<close> receives the report of the outbound-to-inbound
  task, the handler sets the inbound trailer to the trailer of the client stream
  whatever the report is, and then returns: the reported error itself when it is not
  \<open>EOF\<close>, and \<^verbatim>\<open>nil\<close> when it is \<open>EOF\<close>.
\<close>

theorem outbound_first_trailer_then_verbatim:
  assumes "MethodFromServerStream ss = Some name"
    and "director h (Context ss) name = (octx, Some conn, None)"
    and "NewClientStream ss octx conn name = Inr cs"
    and "selected ss = OutboundToInbound e # rest"
  shows "Handler_Handler h ss =
           ([DirectorCall name, NewClientStreamCall conn name, SetTrailerCall (Trailer cs), CancelCall],
            Returned (if e = EOF then None else Some e))"
  using assms by (simp add: Handler_Handler_def numeral_2_eq_2)

theorem outbound_first_trailer_then_verbatim_witness:
  "MethodFromServerStream (demo_stream None [OutboundToInbound (Status Unimplemented ''no such method'')])
     = Some ''/acme.demo.v1.DemoService/Echo'' \<and>
   director demo_handler (Context (demo_stream None [OutboundToInbound (Status Unimplemented ''no such method'')]))
       ''/acme.demo.v1.DemoService/Echo'' = ((), Some 7, None) \<and>
   Handler_Handler demo_handler (demo_stream None [OutboundToInbound (Status Unimplemented ''no such method'')]) =
     ([DirectorCall ''/acme.demo.v1.DemoService/Echo'',
       NewClientStreamCall 7 ''/acme.demo.v1.DemoService/Echo'',
       SetTrailerCall ''x-target-trailer'', CancelCall],
      Returned (Some (Status Unimplemented ''no such method''))) \<and>
   Handler_Handler demo_handler (demo_stream None [OutboundToInbound EOF]) =
     ([DirectorCall ''/acme.demo.v1.DemoService/Echo'',
       NewClientStreamCall 7 ''/acme.demo.v1.DemoService/Echo'',
       SetTrailerCall ''x-target-trailer'', CancelCall],
      Returned None)"
  using outbound_first_trailer_then_verbatim
          [where ss = "demo_stream None [OutboundToInbound (Status Unimplemented ''no such method'')]"
             and name = "''/acme.demo.v1.DemoService/Echo''" and h = demo_handler and octx = "()"
             and conn = 7 and cs = "\<lparr>CloseSend = None, Trailer = ''x-target-trailer''\<rparr>"
             and e = "Status Unimplemented ''no such method''" and rest = "[]"]
        outbound_first_trailer_then_verbatim
          [where ss = "demo_stream None [OutboundToInbound EOF]"
             and name = "''/acme.demo.v1.DemoService/Echo''" and h = demo_handler and octx = "()"
             and conn = 7 and cs = "\<lparr>CloseSend = None, Trailer = ''x-target-trailer''\<rparr>"
             and e = EOF and rest = "[]"]
  by (simp add: demo_stream_def demo_handler_def)

text \<open>
  Claim C2, as stated, fails: after a clean end of the inbound side the handler does
  not always go on waiting. It calls \<^verbatim>\<open>CloseSend\<close> and, when that call returns an
  error, returns this error at once. Here the inbound task reports \<open>EOF\<close>,
  \<^verbatim>\<open>CloseSend\<close> fails, and the handler returns although the report of the outbound
  task is still to come.
\<close>

theorem halfclose_failure_counterexample:
  "Handler_Handler demo_handler
     (demo_stream (Some (PlainError ''send side closed'')) [InboundToOutbound EOF, OutboundToInbound EOF]) =
     ([DirectorCall ''/acme.demo.v1.DemoService/Echo'',
       NewClientStreamCall 7 ''/acme.demo.v1.DemoService/Echo'',
       CloseSendCall, CancelCall],
      Returned (Some (PlainError ''send side closed'')))"
  by (simp add: Handler_Handler_def demo_stream_def demo_handler_def numeral_2_eq_2)

text \<open>
  Claim C2, amended. When the first \<^verbatim>\<open>select\<close> receives the report of the
  inbound-to-outbound task:
  \<^item> if the report is \<open>EOF\<close> the handler calls \<^verbatim>\<open>CloseSend\<close> on the client stream;
    when that call succeeds it does not return but waits for the next report (with no
    further report it stays blocked, and with the report of the outbound task it sets
    the trailer and returns as that branch does); when that call fails the handler
    returns the error of \<^verbatim>\<open>CloseSend\<close>;
  \<^item> if the report is another error the handler cancels the client context and returns
    an \<open>Internal\<close> status error whose text names the failure, without a further
    \<^verbatim>\<open>select\<close>.
\<close>

theorem inbound_first_halfclose_or_cancel:
  assumes "MethodFromServerStream ss = Some name"
    and "director h (Context ss) name = (octx, Some conn, None)"
    and "NewClientStream ss octx conn name = Inr cs"
    and "selected ss = InboundToOutbound e # rest"
  shows "(e = EOF \<and> CloseSend cs = None \<and> rest = [] \<longrightarrow>
            Handler_Handler h ss =
              ([DirectorCall name, NewClientStreamCall conn name, CloseSendCall], Blocked)) \<and>
         (e = EOF \<and> CloseSend cs = None \<and> rest = OutboundToInbound e2 # later \<longrightarrow>
            Handler_Handler h ss =
              ([DirectorCall name, NewClientStreamCall conn name, CloseSendCall,
                SetTrailerCall (Trailer cs), CancelCall],
               Returned (if e2 = EOF then None else Some e2))) \<and>
         (e = EOF \<and> CloseSend cs = Some cCloseErr \<longrightarrow>
            Handler_Handler h ss =
              ([DirectorCall name, NewClientStreamCall conn name, CloseSendCall, CancelCall],
               Returned (Some cCloseErr))) \<and>
         (e \<noteq> EOF \<longrightarrow>
            Handler_Handler h ss =
              ([DirectorCall name, NewClientStreamCall conn name, CancelCall, CancelCall],
               Returned (Some (Status Internal
                 (''failed proxying inbound to outbound: '' @ error_text e)))))"
  using assms by (simp add: Handler_Handler_def numeral_2_eq_2)

theorem inbound_first_halfclose_or_cancel_witness:
  "Handler_Handler demo_handler (demo_stream None [InboundToOutbound EOF]) =
     ([DirectorCall ''/acme.demo.v1.DemoService/Echo'',
       NewClientStreamCall 7 ''/acme.demo.v1.DemoService/Echo'', CloseSendCall], Blocked) \<and>
   Handler_Handler demo_handler (demo_stream None [InboundToOutbound EOF, OutboundToInbound EOF]) =
     ([DirectorCall ''/acme.demo.v1.DemoService/Echo'',
       NewClientStreamCall 7 ''/acme.demo.v1.DemoService/Echo'', CloseSendCall,
       SetTrailerCall ''x-target-trailer'', CancelCall], Returned None) \<and>
   Handler_Handler demo_handler (demo_stream (Some (PlainError ''send side closed'')) [InboundToOutbound EOF]) =
     ([DirectorCall ''/acme.demo.v1.DemoService/Echo'',
       NewClientStreamCall 7 ''/acme.demo.v1.DemoService/Echo'', CloseSendCall, CancelCall],
      Returned (Some (PlainError ''send side closed''))) \<and>
   Handler_Handler demo_handler (demo_stream None [InboundToOutbound (PlainError ''reset'')]) =
     ([DirectorCall ''/acme.demo.v1.DemoService/Echo'',
       NewClientStreamCall 7 ''/acme.demo.v1.DemoService/Echo'', CancelCall, CancelCall],
      Returned (Some (Status Internal ''failed proxying inbound to outbound: reset'')))"
  using inbound_first_halfclose_or_cancel
          [where ss = "demo_stream None [InboundToOutbound EOF]"
             and name = "''/acme.demo.v1.DemoService/Echo''" and h = demo_handler and octx = "()"
             and conn = 7 and cs = "\<lparr>CloseSend = None, Trailer = ''x-target-trailer''\<rparr>"
             and e = EOF and rest = "[]" and ?e2.0 = EOF and later = "[]" and cCloseErr = EOF]
        inbound_first_halfclose_or_cancel
          [where ss = "demo_stream None [InboundToOutbound EOF, OutboundToInbound EOF]"
             and name = "''/acme.demo.v1.DemoService/Echo''" and h = demo_handler and octx = "()"
             and conn = 7 and cs = "\<lparr>CloseSend = None, Trailer = ''x-target-trailer''\<rparr>"
             and e = EOF and rest = "[OutboundToInbound EOF]" and ?e2.0 = EOF and later = "[]"
             and cCloseErr = EOF]
        inbound_first_halfclose_or_cancel
          [where ss = "demo_stream (Some (PlainError ''send side closed'')) [InboundToOutbound EOF]"
             and name = "''/acme.demo.v1.DemoService/Echo''" and h = demo_handler and octx = "()"
             and conn = 7
             and cs = "\<lparr>CloseSend = Some (PlainError ''send side closed''), Trailer = ''x-target-trailer''\<rparr>"
             and e = EOF and rest = "[]" and ?e2.0 = EOF and later = "[]"
             and cCloseErr = "PlainError ''send side closed''"]
        inbound_first_halfclose_or_cancel
          [where ss = "demo_stream None [InboundToOutbound (PlainError ''reset'')]"
             and name = "''/acme.demo.v1.DemoService/Echo''" and h = demo_handler and octx = "()"
             and conn = 7 and cs = "\<lparr>CloseSend = None, Trailer = ''x-target-trailer''\<rparr>"
             and e = "PlainError ''reset''" and rest = "[]" and ?e2.0 = EOF and later = "[]"
             and cCloseErr = EOF]
  by (simp add: demo_stream_def demo_handler_def)


lemma reconcile_one_round:
  fixes cs :: "'md ClientStream"
  shows "snd (reconcile cs (Suc 0) sched :: ('conn, 'md) action list \<times> outcome) = Blocked \<longleftrightarrow> sched = []"
    and "length (filter ends_loop (fst (reconcile cs (Suc 0) sched :: ('conn, 'md) action list \<times> outcome))) \<le> 1"
proof -
  show "snd (reconcile cs (Suc 0) sched :: ('conn, 'md) action list \<times> outcome) = Blocked \<longleftrightarrow> sched = []"
  proof (cases sched)
    case Nil
    then show ?thesis by simp
  next
    case (Cons s rest)
    then show ?thesis by (cases s) (auto split: option.splits)
  qed
  show "length (filter ends_loop (fst (reconcile cs (Suc 0) sched :: ('conn, 'md) action list \<times> outcome))) \<le> 1"
  proof (cases sched)
    case Nil
    then show ?thesis by simp
  next
    case (Cons s rest)
    then show ?thesis by (cases s) (auto split: option.splits)
  qed
qed

text \<open>
  Claim C9, as stated, fails: the handler can wait for ever after the two tasks were
  started. The \<^verbatim>\<open>select\<close> has no default case and no timeout, so a round in which no
  task reports does not end. Two runs: no task ever reports; and the inbound task
  reports \<open>EOF\<close>, \<^verbatim>\<open>CloseSend\<close> succeeds, and the outbound task never reports. In both
  the handler does not return, and the final \<open>Internal\<close> error is not reached.
\<close>

theorem no_report_blocks_counterexample:
  "Handler_Handler demo_handler (demo_stream None []) =
     ([DirectorCall ''/acme.demo.v1.DemoService/Echo'',
       NewClientStreamCall 7 ''/acme.demo.v1.DemoService/Echo''], Blocked) \<and>
   Handler_Handler demo_handler (demo_stream None [InboundToOutbound EOF]) =
     ([DirectorCall ''/acme.demo.v1.DemoService/Echo'',
       NewClientStreamCall 7 ''/acme.demo.v1.DemoService/Echo'', CloseSendCall], Blocked)"
  by (simp add: Handler_Handler_def demo_stream_def demo_handler_def numeral_2_eq_2)

text \<open>
  Claim C9, amended. For every run of the two rounds of the reconciliation loop:
  \<^item> the outbound branch and the error path of the inbound branch, which end the call,
    run at most once between them (the clean-end path of the inbound branch may run
    before, without returning);
  \<^item> when both rounds end without a return (each received \<open>EOF\<close> from the inbound task
    and \<^verbatim>\<open>CloseSend\<close> succeeded) the loop falls through and the handler returns the
    \<open>Internal\<close> error;
  \<^item> the loop fails to return in exactly two cases, in which a \<^verbatim>\<open>select\<close> waits for a
    report that never comes: no task reports at all, or the only report is \<open>EOF\<close> from
    the inbound task and \<^verbatim>\<open>CloseSend\<close> succeeded.
\<close>

theorem reconcile_returns_unless_starved:
  fixes cs :: "'md ClientStream"
  shows "length (filter ends_loop (fst (reconcile cs 2 sched :: ('conn, 'md) action list \<times> outcome))) \<le> 1 \<and>
   (CloseSend cs = None \<longrightarrow>
      (reconcile cs 2 (InboundToOutbound EOF # InboundToOutbound EOF # rest)
         :: ('conn, 'md) action list \<times> outcome) =
        ([CloseSendCall, CloseSendCall],
         Returned (Some (Status Internal ''gRPC proxying should never reach this stage.'')))) \<and>
   (snd (reconcile cs 2 sched :: ('conn, 'md) action list \<times> outcome) = Blocked \<longleftrightarrow>
      sched = [] \<or> (sched = [InboundToOutbound EOF] \<and> CloseSend cs = None))"
proof (intro conjI)
  show "snd (reconcile cs 2 sched :: ('conn, 'md) action list \<times> outcome) = Blocked \<longleftrightarrow>
      sched = [] \<or> (sched = [InboundToOutbound EOF] \<and> CloseSend cs = None)"
  proof (cases sched)
    case Nil
    then show ?thesis by (simp add: numeral_2_eq_2)
  next
    case (Cons s rest)
    show ?thesis
    proof (cases s)
      case (InboundToOutbound e)
      show ?thesis
      proof (cases "e = EOF \<and> CloseSend cs = None")
        case True
        obtain tr :: "('conn, 'md) action list" and r where rc: "reconcile cs (Suc 0) rest = (tr, r)"
          by (cases "reconcile cs (Suc 0) rest :: ('conn, 'md) action list \<times> outcome")
        with reconcile_one_round(1) [of cs rest, where ?'conn = 'conn]
        have "r = Blocked \<longleftrightarrow> rest = []" by simp
        with True Cons InboundToOutbound rc show ?thesis by (simp add: numeral_2_eq_2)
      next
        case False
        with Cons InboundToOutbound show ?thesis
          by (auto simp: numeral_2_eq_2 split: option.splits)
      qed
    next
      case (OutboundToInbound e)
      with Cons show ?thesis by (simp add: numeral_2_eq_2)
    qed
  qed
  show "CloseSend cs = None \<longrightarrow>
      (reconcile cs 2 (InboundToOutbound EOF # InboundToOutbound EOF # rest)
         :: ('conn, 'md) action list \<times> outcome) =
        ([CloseSendCall, CloseSendCall],
         Returned (Some (Status Internal ''gRPC proxying should never reach this stage.'')))"
    by (simp add: numeral_2_eq_2)
  show "length (filter ends_loop (fst (reconcile cs 2 sched :: ('conn, 'md) action list \<times> outcome))) \<le> 1"
  proof (cases sched)
    case Nil
    then show ?thesis by (simp add: numeral_2_eq_2)
  next
    case (Cons s rest)
    show ?thesis
    proof (cases s)
      case (InboundToOutbound e)
      obtain tr :: "('conn, 'md) action list" and r where rc: "reconcile cs (Suc 0) rest = (tr, r)"
        by (cases "reconcile cs (Suc 0) rest :: ('conn, 'md) action list \<times> outcome")
      with reconcile_one_round(2) [of cs rest, where ?'conn = 'conn]
      have "length (filter ends_loop tr) \<le> 1" by simp
      with Cons InboundToOutbound rc show ?thesis
        by (auto simp: numeral_2_eq_2 split: option.splits)
    next
      case (OutboundToInbound e)
      with Cons show ?thesis by (simp add: numeral_2_eq_2)
    qed
  qed
qed

theorem reconcile_returns_unless_starved_witness:
  "CloseSend \<lparr>CloseSend = None, Trailer = ''x-target-trailer''\<rparr> = None \<and>
   (reconcile \<lparr>CloseSend = None, Trailer = ''x-target-trailer''\<rparr> 2
        [InboundToOutbound EOF, InboundToOutbound EOF] :: (nat, string) action list \<times> outcome) =
     ([CloseSendCall, CloseSendCall],
      Returned (Some (Status Internal ''gRPC proxying should never reach this stage.''))) \<and>
   snd (reconcile \<lparr>CloseSend = None, Trailer = ''x-target-trailer''\<rparr> 2
        [InboundToOutbound EOF, InboundToOutbound EOF] :: (nat, string) action list \<times> outcome) \<noteq> Blocked \<and>
   length (filter ends_loop (fst (reconcile \<lparr>CloseSend = None, Trailer = ''x-target-trailer''\<rparr> 2
        [InboundToOutbound EOF, InboundToOutbound EOF] :: (nat, string) action list \<times> outcome))) \<le> 1"
  using reconcile_returns_unless_starved
    [where cs = "\<lparr>CloseSend = None, Trailer = ''x-target-trailer''\<rparr>"
       and sched = "[InboundToOutbound EOF, InboundToOutbound EOF]" and rest = "[]"
       and ?'conn = nat]
  by simp


section \<open>The outbound-to-inbound task\<close>

lemma counter_0: "counter 0 = 0"
  by (simp add: counter_def)

text \<open>
  The calls of the task on the inbound stream, if there are any, begin with
  \<^verbatim>\<open>SendHeader\<close>: no message is sent before the header.
\<close>

lemma first_call_is_SendHeader:
  "fst (ForwardOutboundToInbound E) = [] \<or>
   (\<exists>md tr. src_Header E = Inr md \<and> fst (ForwardOutboundToInbound E) = SendHeader md # tr)"
proof (cases "src_RecvMsg E")
  case Nil
  then show ?thesis by (simp add: ForwardOutboundToInbound_def)
next
  case (Cons r rs)
  then show ?thesis
    by (cases r)
       (auto simp: ForwardOutboundToInbound_def propagate_header_def counter_0
             split: option.splits prod.splits sum.splits)
qed

text \<open>
  The inbound-to-outbound task forwards the frames it receives, in order, and reports
  the first error: \<open>EOF\<close> when the inbound peer ends its input after the frames
  \<open>fs\<close> and every send succeeded.
\<close>

lemma inbound_loop_forwards:
  assumes "\<And>j f. dst_SendMsg E j f = None"
  shows "inbound_loop E k (map Received fs @ [RecvError e]) = (fs, Some e)"
  using assms by (induction fs arbitrary: k) simp_all

lemma ForwardInboundToOutbound_clean_end:
  assumes "src_RecvMsg E = map Received fs @ [RecvError EOF]"
    and "\<And>j f. dst_SendMsg E j f = None"
  shows "ForwardInboundToOutbound E = (fs, Some EOF)"
  using assms by (simp add: ForwardInboundToOutbound_def inbound_loop_forwards)

text \<open>
  Claim C3. When the first \<^verbatim>\<open>RecvMsg\<close> on the outbound stream delivers a message, the
  task reads the header of the outbound stream and sends it to the inbound stream
  before it sends the message: if reading the header fails the task reports that error
  and has made no call on the inbound stream; if sending the header fails it reports
  that error and \<^verbatim>\<open>SendHeader\<close> was its only call; otherwise its calls on the inbound
  stream begin with \<^verbatim>\<open>SendHeader\<close> of the header read, followed by \<^verbatim>\<open>SendMsg\<close> of the
  message.
\<close>

theorem header_before_first_message:
  assumes "src_RecvMsg E = Received f # rest"
  shows "(src_Header E = Inl e \<longrightarrow> ForwardOutboundToInbound E = ([], Some e)) \<and>
         (src_Header E = Inr md \<and> dst_SendHeader E md = Some e \<longrightarrow>
            ForwardOutboundToInbound E = ([SendHeader md], Some e)) \<and>
         (src_Header E = Inr md \<and> dst_SendHeader E md = None \<longrightarrow>
            (\<exists>tr r. ForwardOutboundToInbound E = (SendHeader md # SendMsg f # tr, r)))"
  using assms
  by (auto simp: ForwardOutboundToInbound_def propagate_header_def counter_0
           split: option.splits prod.splits)

theorem header_before_first_message_witness:
  "src_RecvMsg (demo_pipe (Inr ''x-target-header'') None) = Received ''ping::ok'' # [RecvError EOF] \<and>
   ForwardOutboundToInbound (demo_pipe (Inr ''x-target-header'') None) =
     ([SendHeader ''x-target-header'', SendMsg ''ping::ok''], Some EOF) \<and>
   (\<exists>tr r. ForwardOutboundToInbound (demo_pipe (Inr ''x-target-header'') None) =
       (SendHeader ''x-target-header'' # SendMsg ''ping::ok'' # tr, r)) \<and>
   ForwardOutboundToInbound (demo_pipe (Inl (PlainError ''no header'')) None) =
     ([], Some (PlainError ''no header'')) \<and>
   ForwardOutboundToInbound (demo_pipe (Inr ''x-target-header'') (Some (PlainError ''broken pipe''))) =
     ([SendHeader ''x-target-header''], Some (PlainError ''broken pipe''))"
  using header_before_first_message
          [where E = "demo_pipe (Inr ''x-target-header'') None" and f = "''ping::ok''"
             and rest = "[RecvError EOF]" and e = EOF and md = "''x-target-header''"]
        header_before_first_message
          [where E = "demo_pipe (Inl (PlainError ''no header'')) None" and f = "''ping::ok''"
             and rest = "[RecvError EOF]" and e = "PlainError ''no header''" and md = "''x-target-header''"]
        header_before_first_message
          [where E = "demo_pipe (Inr ''x-target-header'') (Some (PlainError ''broken pipe''))"
             and f = "''ping::ok''" and rest = "[RecvError EOF]" and e = "PlainError ''broken pipe''"
             and md = "''x-target-header''"]
  by (simp add: demo_pipe_def ForwardOutboundToInbound_def propagate_header_def counter_0)


section \<open>The default director\<close>

text \<open>
  Claim C7. For every context (well formed in its store) and every method name, the
  default director returns the connection it was built with and no error; the context
  it returns has as outgoing metadata a new object with the entries of the incoming
  metadata of the given context (an empty one when there is none), at an address other
  than that of the incoming metadata; the incoming metadata is as before; and no change
  of the new object changes the incoming metadata, of the returned context or of the
  given one.
\<close>

theorem DefaultDirector_copies_metadata:
  assumes "wf_context st ctx"
  shows "\<exists>st' ctx' c. DefaultDirector cc (st, ctx) name = ((st', ctx'), Some cc, None) \<and>
           outgoing ctx' = Some c \<and> incoming ctx' = incoming ctx \<and>
           outgoing ctx' \<noteq> incoming ctx' \<and>
           outgoing_metadata st' ctx' =
             Some (case incoming_metadata st ctx of None \<Rightarrow> Map.empty | Some m \<Rightarrow> m) \<and>
           incoming_metadata st' ctx' = incoming_metadata st ctx \<and>
           (\<forall>m'. incoming_metadata (st'[c := m']) ctx' = incoming_metadata st ctx \<and>
                 incoming_metadata (st'[c := m']) ctx = incoming_metadata st ctx)"
  using assms
  by (cases "incoming ctx")
     (auto simp: DefaultDirector_def FromIncomingContext_def MD_Copy_def NewOutgoingContext_def
        wf_context_def incoming_metadata_def outgoing_metadata_def nth_append)

theorem DefaultDirector_copies_metadata_witness:
  "wf_context demo_store demo_context \<and>
   (\<exists>st' ctx' c. DefaultDirector (7::nat) (demo_store, demo_context) ''/acme.demo.v1.DemoService/Echo''
         = ((st', ctx'), Some 7, None) \<and>
      outgoing ctx' = Some c \<and> incoming ctx' = incoming demo_context \<and>
      outgoing ctx' \<noteq> incoming ctx' \<and>
      outgoing_metadata st' ctx' =
        Some (case incoming_metadata demo_store demo_context of None \<Rightarrow> Map.empty | Some m \<Rightarrow> m) \<and>
      incoming_metadata st' ctx' = incoming_metadata demo_store demo_context \<and>
      (\<forall>m'. incoming_metadata (st'[c := m']) ctx' = incoming_metadata demo_store demo_context \<and>
            incoming_metadata (st'[c := m']) demo_context = incoming_metadata demo_store demo_context)) \<and>
   incoming_metadata demo_store demo_context = Some [''x-test'' \<mapsto> [''1'']]"
  using DefaultDirector_copies_metadata
    [of demo_store demo_context 7 "''/acme.demo.v1.DemoService/Echo''"]
  by (simp add: wf_context_def demo_store_def demo_context_def incoming_metadata_def)


section \<open>The registrar\<close>

lemma add_streams_Streams:
  "Streams (add_streams s fd ms) =
     Streams fd @ map (\<lambda>m. \<lparr>StreamName = m, StreamHandler = s, ServerStreams = True, ClientStreams = True\<rparr>) ms"
  by (induction ms arbitrary: fd) (simp_all add: Let_def)

lemma add_streams_ServiceName: "ServiceName (add_streams s fd ms) = ServiceName fd"
  by (induction ms arbitrary: fd) (simp_all add: Let_def)

lemma find_append_cases:
  "find P (xs @ ys) = (case find P xs of None \<Rightarrow> find P ys | Some x \<Rightarrow> Some x)"
  by (induction xs) simp_all

lemma find_listed:
  "find (\<lambda>d. StreamName d = m)
     (rev (map (\<lambda>m. \<lparr>StreamName = m, StreamHandler = s, ServerStreams = True, ClientStreams = True\<rparr>) ms)) =
   (if m \<in> set ms
    then Some \<lparr>StreamName = m, StreamHandler = s, ServerStreams = True, ClientStreams = True\<rparr>
    else None)"
  by (induction ms) (auto simp: find_append_cases split: option.splits)

text \<open>
  Outside restricted mode the server decides otherwise: a server made by \<open>NewProxy\<close>
  is in transparent mode, and there the call \<^verbatim>\<open>Nope\<close> of a service registered with
  the list \<^verbatim>\<open>Echo\<close> is handed to the transparent handler, which calls its director.
\<close>

lemma transparent_mode_routes_unlisted:
  "\<not> restricted_mode (NewProxy 7 [] :: (md_store \<times> go_context, nat) Handler Server) \<and>
   registered_call (NewProxy 7 []) demo_director ''acme.demo.v1.DemoService'' [''Echo''] ''Nope''
     = Some (Invoke (TransparentHandler (DefaultDirector 7))) \<and>
   fst (Handler_Handler (TransparentHandler (DefaultDirector 7)) demo_proxy_stream) =
     [DirectorCall ''/acme.demo.v1.DemoService/Nope'',
      NewClientStreamCall 7 ''/acme.demo.v1.DemoService/Nope'',
      SetTrailerCall ''x-target-trailer'', CancelCall]"
  by (simp add: restricted_mode_def registered_call_def RegisterService_def
        Server_RegisterService_def NewProxy_def
        grpc_NewServer_def DefaultProxyServerOpt_def DefaultProxyOpt_def handleStream_def
        fakeDesc_def Let_def Handler_Handler_def TransparentHandler_def DefaultDirector_def
        FromIncomingContext_def MD_Copy_def NewOutgoingContext_def demo_proxy_stream_def
        demo_context_def numeral_2_eq_2)

text \<open>
  Claim C8. In restricted mode (the server has no handler for unknown services),
  when \<open>RegisterService\<close> succeeds the server holds for the service name a descriptor
  whose streams are exactly the listed method names, in order, one per listed method,
  each with server and client streaming enabled and bound to the relay handler of the
  given director, so that a call of a listed method is handed to that handler, and a
  call of a method of that service that is not in the list is answered with
  \<^verbatim>\<open>Unimplemented\<close>: no handler, and so no director, is invoked. The descriptor and
  the routing of listed methods are as stated on every server.
\<close>

theorem RegisterService_exposes_exactly_listed:
  assumes "RegisterService server d serviceName methodNames = Some server'"
  shows "services server' serviceName = Some (fakeDesc d serviceName methodNames) \<and>
         ServiceName (fakeDesc d serviceName methodNames) = serviceName \<and>
         Streams (fakeDesc d serviceName methodNames) =
           map (\<lambda>m. \<lparr>StreamName = m, StreamHandler = \<lparr>director = d\<rparr>,
                      ServerStreams = True, ClientStreams = True\<rparr>) methodNames \<and>
         (\<forall>m \<in> set methodNames. handleStream server' serviceName m = Invoke \<lparr>director = d\<rparr>) \<and>
         (restricted_mode server \<longrightarrow>
            (\<forall>m. m \<notin> set methodNames \<longrightarrow> handleStream server' serviceName m = UnimplementedStatus))"
proof -
  let ?fd = "fakeDesc d serviceName methodNames"
  have name: "ServiceName ?fd = serviceName"
    by (simp add: fakeDesc_def add_streams_ServiceName)
  have streams: "Streams ?fd =
           map (\<lambda>m. \<lparr>StreamName = m, StreamHandler = \<lparr>director = d\<rparr>,
                      ServerStreams = True, ClientStreams = True\<rparr>) methodNames"
    by (simp add: fakeDesc_def add_streams_Streams)
  from assms name have srv: "server' = server\<lparr>services := (services server)(serviceName \<mapsto> ?fd)\<rparr>"
    by (auto simp: RegisterService_def Server_RegisterService_def split: option.splits)
  then have reg: "services server' serviceName = Some ?fd" by simp
  have listed: "handleStream server' serviceName m = Invoke \<lparr>director = d\<rparr>" if "m \<in> set methodNames" for m
    using that reg by (simp add: handleStream_def streams find_listed)
  have unlisted: "handleStream server' serviceName m = UnimplementedStatus"
    if "m \<notin> set methodNames" and "restricted_mode server" for m
    using that reg srv by (simp add: handleStream_def streams find_listed restricted_mode_def)
  from name streams reg listed unlisted show ?thesis by blast
qed

theorem RegisterService_exposes_exactly_listed_witness:
  "restricted_mode (grpc_NewServer [DefaultProxyServerOpt] :: (md_store \<times> go_context, nat) Handler Server) \<and>
   (\<exists>server'. RegisterService (grpc_NewServer [DefaultProxyServerOpt]) demo_director
                 ''acme.demo.v1.DemoService'' [''Echo''] = Some server' \<and>
      handleStream server' ''acme.demo.v1.DemoService'' ''Echo'' = Invoke \<lparr>director = demo_director\<rparr> \<and>
      handleStream server' ''acme.demo.v1.DemoService'' ''Nope'' = UnimplementedStatus)"
proof -
  let ?srv = "grpc_NewServer [DefaultProxyServerOpt] :: (md_store \<times> go_context, nat) Handler Server"
  have r: "restricted_mode ?srv"
    by (simp add: restricted_mode_def grpc_NewServer_def DefaultProxyServerOpt_def)
  obtain server' where reg:
    "RegisterService ?srv demo_director ''acme.demo.v1.DemoService'' [''Echo''] = Some server'"
    by (simp add: RegisterService_def Server_RegisterService_def grpc_NewServer_def
          DefaultProxyServerOpt_def fakeDesc_def Let_def)
  from RegisterService_exposes_exactly_listed [OF reg] r
  have "handleStream server' ''acme.demo.v1.DemoService'' ''Echo'' = Invoke \<lparr>director = demo_director\<rparr>"
    and "handleStream server' ''acme.demo.v1.DemoService'' ''Nope'' = UnimplementedStatus"
    by simp_all
  with reg r show ?thesis by blast
qed


end
